theory Spec2Isabelle
  imports Main "HOL-Library.Word" "HOL-Library.AList"
begin

unbundle bit_operations_syntax

section \<open>Notification endpoints: data model\<close>

text \<open>
  The embedding follows \<^verbatim>\<open>notification/endpoint\<close> (the Slack variant) and
  \<^verbatim>\<open>http/notification_endpoint.go\<close> (the HTTP handlers and the HTTP client). A Go
  struct is a record, struct embedding is record extension, a pointer that may be nil is
  an \<open>option\<close>, and a method with a pointer receiver returns the updated receiver.
\<close>

type_synonym ID = "64 word"

text \<open>
  Instants are counted from Go's zero \<^verbatim>\<open>time.Time{}\<close>, which is \<open>Time_zero\<close>.
\<close>

type_synonym Time = int

definition Time_zero :: Time where
  "Time_zero = 0"

text \<open>
  \<^verbatim>\<open>influxdb.Error\<close> with the error codes the handlers use; \<open>Err\<close> is the wrapped cause.
\<close>

datatype ErrCode = EInvalid | ENotFound | EInternal

datatype Error = Error (Code: ErrCode) (Msg: string) (Err: "Error option")

text \<open>
  \<^verbatim>\<open>influxdb.SecretField\<close>: \<open>Value\<close> is a \<^verbatim>\<open>*string\<close>, nil when no plaintext is held.
\<close>

record SecretField =
  Key :: string
  Value :: "string option"

text \<open>
  \<^verbatim>\<open>influxdb.EndpointBase\<close>, the fields every variant embeds. \<^verbatim>\<open>Status\<close> is a string
  type in Go (\<^verbatim>\<open>influxdb.Active\<close>, \<^verbatim>\<open>influxdb.Inactive\<close>).
\<close>

record EndpointBase =
  ID :: ID
  OrgID :: ID
  Name :: string
  Description :: string
  Status :: string
  CreatedAt :: Time
  UpdatedAt :: Time

definition Active :: string where
  "Active = ''active''"

definition Inactive :: string where
  "Inactive = ''inactive''"

text \<open>The Slack variant (\<^verbatim>\<open>type Slack struct\<close>).\<close>

record Slack = EndpointBase +
  URL :: string
  Token :: SecretField

definition slackTokenSuffix :: string where
  "slackTokenSuffix = ''-token''"

definition SlackType :: string where
  "SlackType = ''slack''"

text \<open>
  \<^verbatim>\<open>func (s *Slack) BackfillSecretKeys()\<close>. \<^verbatim>\<open>influxdb.ID.String\<close> is not under
  \<^verbatim>\<open>src/\<close>; it is the parameter \<open>idString\<close>.
\<close>

definition Slack_BackfillSecretKeys :: "(ID \<Rightarrow> string) \<Rightarrow> Slack \<Rightarrow> Slack" where
  "Slack_BackfillSecretKeys idString s =
     (if Key (Slack.Token s) = '''' \<and> Value (Slack.Token s) \<noteq> None
      then s\<lparr>Slack.Token := (Slack.Token s)\<lparr>Key := idString (EndpointBase.ID s) @ slackTokenSuffix\<rparr>\<rparr>
      else s)"

text \<open>\<^verbatim>\<open>func (s Slack) SecretFields() []influxdb.SecretField\<close>.\<close>

definition Slack_SecretFields :: "Slack \<Rightarrow> SecretField list" where
  "Slack_SecretFields s =
     (let arr = [] in
      if Key (Slack.Token s) \<noteq> '''' then arr @ [Slack.Token s] else arr)"

definition Slack_Type :: "Slack \<Rightarrow> string" where
  "Slack_Type s = SlackType"

text \<open>
  Modelled from the spec: the generic HTTP-callback variant \<^verbatim>\<open>endpoint.HTTP\<close> is not
  under \<^verbatim>\<open>src/\<close>. Its fields are the ones the tests' struct literals and expected
  bodies name (url, headers, token, username, password, authMethod, method,
  contentTemplate); its secret keys are derived as the spec's data model says,
  \<open>key = <endpointID>-<fieldSuffix>\<close>.
\<close>

record HTTP = EndpointBase +
  URL :: string
  Headers :: "(string \<times> string) list"
  Token :: SecretField
  Username :: SecretField
  Password :: SecretField
  AuthMethod :: string
  Method :: string
  ContentTemplate :: string

text \<open>
  Modelled from the spec: the key suffixes and the type discriminator of the HTTP variant
  (not under \<^verbatim>\<open>src/\<close>): \<^verbatim>\<open>-token\<close>, \<^verbatim>\<open>-username\<close>, \<^verbatim>\<open>-password\<close>, and \<^verbatim>\<open>http\<close>.
\<close>

definition httpTokenSuffix :: string where
  "httpTokenSuffix = ''-token''"

definition httpUsernameSuffix :: string where
  "httpUsernameSuffix = ''-username''"

definition httpPasswordSuffix :: string where
  "httpPasswordSuffix = ''-password''"

definition HTTPType :: string where
  "HTTPType = ''http''"

text \<open>
  Modelled from the spec: one step of backfill on one secret field, "for every secret
  field on the variant where value is set but key is empty, deterministically assign key".
\<close>

definition backfill_field :: "string \<Rightarrow> string \<Rightarrow> SecretField \<Rightarrow> SecretField" where
  "backfill_field idStr suffix f =
     (if Key f = '''' \<and> Value f \<noteq> None then f\<lparr>Key := idStr @ suffix\<rparr> else f)"

text \<open>
  Modelled from the spec: \<^verbatim>\<open>HTTP.BackfillSecretKeys\<close> (not under \<^verbatim>\<open>src/\<close>), written as
  its Slack sibling is, for each of the variant's secret fields.
\<close>

definition HTTP_BackfillSecretKeys :: "(ID \<Rightarrow> string) \<Rightarrow> HTTP \<Rightarrow> HTTP" where
  "HTTP_BackfillSecretKeys idString s =
     s\<lparr>HTTP.Token := backfill_field (idString (EndpointBase.ID s)) httpTokenSuffix (HTTP.Token s),
       HTTP.Username := backfill_field (idString (EndpointBase.ID s)) httpUsernameSuffix (HTTP.Username s),
       HTTP.Password := backfill_field (idString (EndpointBase.ID s)) httpPasswordSuffix (HTTP.Password s)\<rparr>"

text \<open>
  Modelled from the spec: \<^verbatim>\<open>HTTP.SecretFields\<close> (not under \<^verbatim>\<open>src/\<close>), the ordered
  sequence of the secret fields that hold a non-empty key.
\<close>

definition HTTP_SecretFields :: "HTTP \<Rightarrow> SecretField list" where
  "HTTP_SecretFields s =
     filter (\<lambda>f. Key f \<noteq> '''') [HTTP.Token s, HTTP.Username s, HTTP.Password s]"

text \<open>
  Modelled from the spec: \<^verbatim>\<open>HTTP.Type\<close> (not under \<^verbatim>\<open>src/\<close>), the discriminator the
  tests' bodies show for the variant.
\<close>

definition HTTP_Type :: "HTTP \<Rightarrow> string" where
  "HTTP_Type s = HTTPType"

text \<open>
  \<^verbatim>\<open>influxdb.NotificationEndpoint\<close> is the interface both variants implement; a value
  of it is one of the two, and each method dispatches on the variant.
\<close>

datatype NotificationEndpoint = OfSlack Slack | OfHTTP HTTP

fun BackfillSecretKeys :: "(ID \<Rightarrow> string) \<Rightarrow> NotificationEndpoint \<Rightarrow> NotificationEndpoint" where
  "BackfillSecretKeys idString (OfSlack s) = OfSlack (Slack_BackfillSecretKeys idString s)"
| "BackfillSecretKeys idString (OfHTTP h) = OfHTTP (HTTP_BackfillSecretKeys idString h)"

fun SecretFields :: "NotificationEndpoint \<Rightarrow> SecretField list" where
  "SecretFields (OfSlack s) = Slack_SecretFields s"
| "SecretFields (OfHTTP h) = HTTP_SecretFields h"

fun Type :: "NotificationEndpoint \<Rightarrow> string" where
  "Type (OfSlack s) = Slack_Type s"
| "Type (OfHTTP h) = HTTP_Type h"

fun Base :: "NotificationEndpoint \<Rightarrow> EndpointBase" where
  "Base (OfSlack s) = EndpointBase.truncate s"
| "Base (OfHTTP h) = EndpointBase.truncate h"

text \<open>
  The secret fields of a variant with their key suffix, whatever their keys hold: the
  fields backfill ranges over.
\<close>

fun secret_slots :: "NotificationEndpoint \<Rightarrow> (string \<times> SecretField) list" where
  "secret_slots (OfSlack s) = [(slackTokenSuffix, Slack.Token s)]"
| "secret_slots (OfHTTP h) =
     [(httpTokenSuffix, HTTP.Token h), (httpUsernameSuffix, HTTP.Username h),
      (httpPasswordSuffix, HTTP.Password h)]"

definition secret_keys :: "NotificationEndpoint \<Rightarrow> string list" where
  "secret_keys e = map (\<lambda>(suffix, f). Key f) (secret_slots e)"

text \<open>
  The identifier printer the tests show: sixteen lower-case hexadecimal digits
  (\<^verbatim>\<open>020f755c3c082000\<close>). It instantiates \<open>idString\<close> at concrete inputs.
\<close>

definition hexdigit :: "nat \<Rightarrow> char" where
  "hexdigit n = ''0123456789abcdef'' ! n"

definition hexID :: "ID \<Rightarrow> string" where
  "hexID i = map (\<lambda>k. hexdigit (unat (drop_bit (4 * k) i AND 15))) (rev [0..<16])"

section \<open>Wire JSON\<close>

text \<open>
  A JSON object is the list of its members. Identifiers and timestamps travel as JSON
  strings written by \<^verbatim>\<open>influxdb.ID\<close>'s and \<^verbatim>\<open>time.Time\<close>'s own marshalers, which
  are not under \<^verbatim>\<open>src/\<close>; the model keeps these two leaves typed (\<open>JID\<close>, \<open>JTime\<close>),
  so their textual form is no part of what is proved.
\<close>

datatype json =
  JString string
| JID ID
| JTime Time
| JArray "json list"
| JObject "(string \<times> json) list"

type_synonym object = "(string \<times> json) list"

text \<open>
  Modelled from the spec: \<^verbatim>\<open>influxdb.SecretField\<close>'s marshaler is not under \<^verbatim>\<open>src/\<close>.
  A secret field appears as \<^verbatim>\<open>""\<close> (no key) or as \<^verbatim>\<open>"secret: " + key\<close>; the tests'
  expected bodies show both (\<^verbatim>\<open>"token": ""\<close>, \<^verbatim>\<open>"username": "secret: http-user-key"\<close>).
\<close>

definition SecretField_String :: "SecretField \<Rightarrow> string" where
  "SecretField_String f = (if Key f = '''' then '''' else ''secret: '' @ Key f)"

definition SecretField_MarshalJSON :: "SecretField \<Rightarrow> json" where
  "SecretField_MarshalJSON f = JString (SecretField_String f)"

text \<open>
  Modelled from the spec: the JSON tags of \<^verbatim>\<open>influxdb.EndpointBase\<close> are not under
  \<^verbatim>\<open>src/\<close>. The wire names are those of the spec's external interface (id, orgID, name,
  description, status, createdAt, updatedAt); the tests' expected bodies carry no
  description when it is empty.
\<close>

definition EndpointBase_members :: "'a EndpointBase_scheme \<Rightarrow> object" where
  "EndpointBase_members b =
     [(''id'', JID (ID b)), (''orgID'', JID (OrgID b)), (''name'', JString (Name b))]
     @ (if Description b = '''' then [] else [(''description'', JString (Description b))])
     @ [(''status'', JString (Status b)), (''createdAt'', JTime (CreatedAt b)),
        (''updatedAt'', JTime (UpdatedAt b))]"

text \<open>
  \<^verbatim>\<open>func (s Slack) MarshalJSON() ([]byte, error)\<close>: the fields of \<^verbatim>\<open>slackAlias\<close> (the
  embedded base, \<^verbatim>\<open>url\<close>, \<^verbatim>\<open>token\<close>) followed by \<^verbatim>\<open>type\<close>. No member's marshaler
  fails, so the error result is always nil and is left out.
\<close>

definition Slack_MarshalJSON :: "Slack \<Rightarrow> object" where
  "Slack_MarshalJSON s =
     EndpointBase_members s
     @ [(''url'', JString (Slack.URL s)),
        (''token'', SecretField_MarshalJSON (Slack.Token s)),
        (''type'', JString (Slack_Type s))]"

text \<open>
  Modelled from the spec: \<^verbatim>\<open>HTTP.MarshalJSON\<close> (not under \<^verbatim>\<open>src/\<close>), the Slack
  marshaler's sibling; member names as in the tests' expected bodies, headers left out
  when there are none.
\<close>

definition HTTP_MarshalJSON :: "HTTP \<Rightarrow> object" where
  "HTTP_MarshalJSON h =
     EndpointBase_members h
     @ [(''url'', JString (HTTP.URL h))]
     @ (if HTTP.Headers h = [] then []
        else [(''headers'', JObject (map (\<lambda>(k, v). (k, JString v)) (HTTP.Headers h)))])
     @ [(''token'', SecretField_MarshalJSON (HTTP.Token h)),
        (''username'', SecretField_MarshalJSON (HTTP.Username h)),
        (''password'', SecretField_MarshalJSON (HTTP.Password h)),
        (''authMethod'', JString (HTTP.AuthMethod h)),
        (''method'', JString (HTTP.Method h)),
        (''contentTemplate'', JString (HTTP.ContentTemplate h)),
        (''type'', JString (HTTP_Type h))]"

fun MarshalJSON :: "NotificationEndpoint \<Rightarrow> object" where
  "MarshalJSON (OfSlack s) = Slack_MarshalJSON s"
| "MarshalJSON (OfHTTP h) = HTTP_MarshalJSON h"

text \<open>The public wire names of a variant's secret fields, in the order of \<open>secret_slots\<close>.\<close>

fun secret_names :: "NotificationEndpoint \<Rightarrow> string list" where
  "secret_names (OfSlack s) = [''token'']"
| "secret_names (OfHTTP h) = [''token'', ''username'', ''password'']"

text \<open>The endpoint with every plaintext dropped: what may show in encoded output.\<close>

definition redact_field :: "SecretField \<Rightarrow> SecretField" where
  "redact_field f = f\<lparr>Value := None\<rparr>"

fun redact :: "NotificationEndpoint \<Rightarrow> NotificationEndpoint" where
  "redact (OfSlack s) = OfSlack (s\<lparr>Slack.Token := redact_field (Slack.Token s)\<rparr>)"
| "redact (OfHTTP h) =
     OfHTTP (h\<lparr>HTTP.Token := redact_field (HTTP.Token h),
               HTTP.Username := redact_field (HTTP.Username h),
               HTTP.Password := redact_field (HTTP.Password h)\<rparr>)"

subsection \<open>The HTTP client's request encoder\<close>

text \<open>
  \<^verbatim>\<open>notificationEndpointEncoder.MarshalJSON\<close>. The endpoint is marshalled and read
  back into the map \<^verbatim>\<open>ughhh\<close>; the keys are backfilled (through the pointer the
  interface value holds, so the caller's endpoint changes and is returned here); then the
  plaintext of every secret field is stored under \<^verbatim>\<open>fieldMap[sec.Key]\<close>. Indexing a Go
  map at a missing key yields the zero value, the empty string.
\<close>

definition fieldMap :: "(string \<times> string) list" where
  "fieldMap =
     [(''-password'', ''password''),
      (''-routing-key'', ''routingKey''),
      (''-token'', ''token''),
      (''-username'', ''username'')]"

definition fieldMap_index :: "string \<Rightarrow> string" where
  "fieldMap_index k = (case map_of fieldMap k of Some name \<Rightarrow> name | None \<Rightarrow> '''')"

definition encoder_store :: "object \<Rightarrow> SecretField \<Rightarrow> object" where
  "encoder_store ughhh sec =
     (let v = (case Value sec of Some p \<Rightarrow> p | None \<Rightarrow> '''')
      in AList.update (fieldMap_index (Key sec)) (JString v) ughhh)"

definition notificationEndpointEncoder_MarshalJSON ::
  "(ID \<Rightarrow> string) \<Rightarrow> NotificationEndpoint \<Rightarrow> object \<times> NotificationEndpoint" where
  "notificationEndpointEncoder_MarshalJSON idString ne =
     (let ughhh = MarshalJSON ne;
          ne' = BackfillSecretKeys idString ne
      in (foldl encoder_store ughhh (SecretFields ne'), ne'))"

subsection \<open>Decoding\<close>

text \<open>
  Modelled from the spec: \<^verbatim>\<open>endpoint.UnmarshalJSON\<close> and the unmarshalers of the
  base and of \<^verbatim>\<open>influxdb.SecretField\<close> are not under \<^verbatim>\<open>src/\<close>. The spec's Decode
  reads the \<^verbatim>\<open>type\<close> discriminator first and fails with \<open>UnknownType\<close> when it names
  no known variant; it builds a zero value of the matched variant and unmarshals the other
  members into it, a missing member keeping its zero value; a public secret member goes
  to \<open>Value\<close> and \<open>Key\<close> stays empty, since a key is never accepted from the wire. A
  member of the wrong JSON kind is \<open>Malformed\<close>. The empty string holds no value: the
  tests put \<^verbatim>\<open>"token": ""\<close> through a full replace, which backfills, and expect
  \<^verbatim>\<open>"token": ""\<close> back.
\<close>

datatype DecodeError = UnknownType string | Malformed string

definition bindE :: "'e + 'a \<Rightarrow> ('a \<Rightarrow> 'e + 'b) \<Rightarrow> 'e + 'b" where
  "bindE m f = (case m of Inl e \<Rightarrow> Inl e | Inr a \<Rightarrow> f a)"

text \<open>
  Modelled from the spec: reading one member of the object; a missing member gives the
  zero value of its type.
\<close>

definition get_string :: "object \<Rightarrow> string \<Rightarrow> DecodeError + string" where
  "get_string obj name =
     (case map_of obj name of
        None \<Rightarrow> Inr ''''
      | Some (JString s) \<Rightarrow> Inr s
      | Some _ \<Rightarrow> Inl (Malformed name))"

definition get_id :: "object \<Rightarrow> string \<Rightarrow> DecodeError + ID" where
  "get_id obj name =
     (case map_of obj name of
        None \<Rightarrow> Inr 0
      | Some (JID i) \<Rightarrow> Inr i
      | Some _ \<Rightarrow> Inl (Malformed name))"

definition get_time :: "object \<Rightarrow> string \<Rightarrow> DecodeError + Time" where
  "get_time obj name =
     (case map_of obj name of
        None \<Rightarrow> Inr Time_zero
      | Some (JTime t) \<Rightarrow> Inr t
      | Some _ \<Rightarrow> Inl (Malformed name))"

text \<open>
  Modelled from the spec: a public secret member is mapped to \<open>Value\<close>, \<open>Key\<close> stays
  empty.
\<close>

definition get_secret :: "object \<Rightarrow> string \<Rightarrow> DecodeError + SecretField" where
  "get_secret obj name =
     bindE (get_string obj name)
       (\<lambda>s. Inr \<lparr>Key = '''', Value = (if s = '''' then None else Some s)\<rparr>)"

fun header_of :: "string \<times> json \<Rightarrow> (string \<times> string) option" where
  "header_of (k, JString v) = Some (k, v)"
| "header_of (k, _) = None"

definition get_headers :: "object \<Rightarrow> string \<Rightarrow> DecodeError + (string \<times> string) list" where
  "get_headers obj name =
     (case map_of obj name of
        None \<Rightarrow> Inr []
      | Some (JObject kvs) \<Rightarrow>
          (case those (map header_of kvs) of
             Some hs \<Rightarrow> Inr hs
           | None \<Rightarrow> Inl (Malformed name))
      | Some _ \<Rightarrow> Inl (Malformed name))"

text \<open>
  Modelled from the spec: unmarshalling the members into the zero value of the base and
  of each variant.
\<close>

definition decode_base :: "object \<Rightarrow> DecodeError + EndpointBase" where
  "decode_base obj =
     bindE (get_id obj ''id'') (\<lambda>i.
     bindE (get_id obj ''orgID'') (\<lambda>org.
     bindE (get_string obj ''name'') (\<lambda>n.
     bindE (get_string obj ''description'') (\<lambda>d.
     bindE (get_string obj ''status'') (\<lambda>st.
     bindE (get_time obj ''createdAt'') (\<lambda>c.
     bindE (get_time obj ''updatedAt'') (\<lambda>u.
       Inr \<lparr>ID = i, OrgID = org, Name = n, Description = d, Status = st,
            CreatedAt = c, UpdatedAt = u\<rparr>)))))))"

definition decode_slack :: "object \<Rightarrow> DecodeError + Slack" where
  "decode_slack obj =
     bindE (decode_base obj) (\<lambda>b.
     bindE (get_string obj ''url'') (\<lambda>u.
     bindE (get_secret obj ''token'') (\<lambda>t.
       Inr (EndpointBase.extend b (Slack.fields u t)))))"

definition decode_http :: "object \<Rightarrow> DecodeError + HTTP" where
  "decode_http obj =
     bindE (decode_base obj) (\<lambda>b.
     bindE (get_string obj ''url'') (\<lambda>u.
     bindE (get_headers obj ''headers'') (\<lambda>hs.
     bindE (get_secret obj ''token'') (\<lambda>t.
     bindE (get_secret obj ''username'') (\<lambda>un.
     bindE (get_secret obj ''password'') (\<lambda>pw.
     bindE (get_string obj ''authMethod'') (\<lambda>am.
     bindE (get_string obj ''method'') (\<lambda>m.
     bindE (get_string obj ''contentTemplate'') (\<lambda>ct.
       Inr (EndpointBase.extend b (HTTP.fields u hs t un pw am m ct)))))))))))"

text \<open>
  Modelled from the spec: \<^verbatim>\<open>endpoint.UnmarshalJSON\<close>, the dispatch on the discriminator.
\<close>

definition UnmarshalJSON :: "object \<Rightarrow> DecodeError + NotificationEndpoint" where
  "UnmarshalJSON obj =
     bindE (get_string obj ''type'') (\<lambda>t.
       if t = SlackType then bindE (decode_slack obj) (\<lambda>s. Inr (OfSlack s))
       else if t = HTTPType then bindE (decode_http obj) (\<lambda>h. Inr (OfHTTP h))
       else Inl (UnknownType t))"


section \<open>Validation\<close>

text \<open>
  Modelled from the spec: \<^verbatim>\<open>influxdb.Status.Valid\<close> and \<^verbatim>\<open>influxdb.EndpointBase.Valid\<close>
  are not under \<^verbatim>\<open>src/\<close>. The status is one of \<^verbatim>\<open>active\<close>, \<^verbatim>\<open>inactive\<close>; the base
  fields pass when the name is non-empty and the status is valid; a failure is an
  \<^verbatim>\<open>EInvalid\<close> error.
\<close>

definition Status_Valid :: "string \<Rightarrow> Error option" where
  "Status_Valid st =
     (if st = Active \<or> st = Inactive then None
      else Some (Error EInvalid ''invalid status'' None))"

text \<open>
  Modelled from the spec: \<^verbatim>\<open>influxdb.EndpointBase.Valid\<close>, non-empty name and valid
  status.
\<close>

definition EndpointBase_Valid :: "'a EndpointBase_scheme \<Rightarrow> Error option" where
  "EndpointBase_Valid b =
     (if Name b = '''' then Some (Error EInvalid ''endpoint name is empty'' None)
      else Status_Valid (Status b))"

text \<open>
  \<^verbatim>\<open>func (s Slack) Valid() error\<close>. \<^verbatim>\<open>url.Parse\<close> belongs to Go's library: the
  parameter \<open>url_Parse\<close> gives the text of its error, or \<open>None\<close> when the string parses.
  The receiver is a value, so the method has the endpoint's copy only and its result is
  all it produces.
\<close>

definition Slack_Valid :: "(string \<Rightarrow> string option) \<Rightarrow> Slack \<Rightarrow> Error option" where
  "Slack_Valid url_Parse s =
     (case EndpointBase_Valid s of
        Some err \<Rightarrow> Some err
      | None \<Rightarrow>
          if Slack.URL s = '''' then
            Some (Error EInvalid ''slack endpoint URL must be provided'' None)
          else if Slack.URL s \<noteq> '''' then
            (case url_Parse (Slack.URL s) of
               Some err \<Rightarrow>
                 Some (Error EInvalid (''slack endpoint URL is invalid: '' @ err) None)
             | None \<Rightarrow> None)
          else None)"

text \<open>
  Modelled from the spec: \<^verbatim>\<open>HTTP.Valid\<close> (not under \<^verbatim>\<open>src/\<close>): the base fields must
  pass, and the URL must be present and parse.
\<close>

definition HTTP_Valid :: "(string \<Rightarrow> string option) \<Rightarrow> HTTP \<Rightarrow> Error option" where
  "HTTP_Valid url_Parse h =
     (case EndpointBase_Valid h of
        Some err \<Rightarrow> Some err
      | None \<Rightarrow>
          if HTTP.URL h = '''' then
            Some (Error EInvalid ''http endpoint URL must be provided'' None)
          else
            (case url_Parse (HTTP.URL h) of
               Some err \<Rightarrow>
                 Some (Error EInvalid (''http endpoint URL is invalid: '' @ err) None)
             | None \<Rightarrow> None))"

fun Valid :: "(string \<Rightarrow> string option) \<Rightarrow> NotificationEndpoint \<Rightarrow> Error option" where
  "Valid url_Parse (OfSlack s) = Slack_Valid url_Parse s"
| "Valid url_Parse (OfHTTP h) = HTTP_Valid url_Parse h"

section \<open>The HTTP handlers' request decoding\<close>

text \<open>
  What a handler reads of an \<^verbatim>\<open>*http.Request\<close>: the query string
  (\<^verbatim>\<open>url.Values\<close>, a map from a name to its values), the router's parameters, the
  body (\<open>None\<close> when the bytes are not JSON) and what \<^verbatim>\<open>pctx.GetAuthorizer\<close> finds in
  the context (the user's identifier, or an error).
\<close>

record Request =
  query :: "(string \<times> string list) list"
  params :: "(string \<times> string) list"
  body :: "json option"
  authorizer :: "Error + ID"

text \<open>\<^verbatim>\<open>url.Values.Get\<close>: the first value of the name, the empty string when it has none.\<close>

definition Values_Get :: "(string \<times> string list) list \<Rightarrow> string \<Rightarrow> string" where
  "Values_Get q name = (case map_of q name of Some (v # vs) \<Rightarrow> v | _ \<Rightarrow> '''')"

text \<open>\<^verbatim>\<open>httprouter.Params.ByName\<close>: the empty string when the parameter is missing.\<close>

definition ByName :: "(string \<times> string) list \<Rightarrow> string \<Rightarrow> string" where
  "ByName ps name = (case map_of ps name of Some v \<Rightarrow> v | None \<Rightarrow> '''')"

text \<open>
  \<^verbatim>\<open>influxdb.NotificationEndpointFilter\<close>, as the code uses it: \<^verbatim>\<open>OrgID\<close> and \<^verbatim>\<open>Org\<close>
  are pointers (\<^verbatim>\<open>filter.Org != nil\<close>, \<^verbatim>\<open>*filter.Org\<close>), and the embedded
  \<^verbatim>\<open>UserResourceMappingFilter\<close> carries \<^verbatim>\<open>ResourceType\<close> and \<^verbatim>\<open>UserID\<close>.
\<close>

record UserResourceMappingFilter =
  ResourceType :: string
  UserID :: ID

record NotificationEndpointFilter = UserResourceMappingFilter +
  OrgID :: "ID option"
  Org :: "string option"

text \<open>
  \<^verbatim>\<open>influxdb.NotificationEndpointResourceType\<close>; the constant's text is not under
  \<^verbatim>\<open>src/\<close> and nothing below depends on it.
\<close>

definition NotificationEndpointResourceType :: string where
  "NotificationEndpointResourceType = ''notificationEndpoints''"

text \<open>A run of Go code either panics or returns.\<close>

datatype panic = NilPointerDereference

text \<open>
  \<^verbatim>\<open>decodeNotificationEndpointFilter\<close>. \<^verbatim>\<open>decodeFindOptions\<close> and
  \<^verbatim>\<open>influxdb.IDFromString\<close> are not under \<^verbatim>\<open>src/\<close> and are parameters. The composite
  literal that builds \<^verbatim>\<open>f\<close> sets \<^verbatim>\<open>ResourceType\<close> only, so \<^verbatim>\<open>f.Org\<close> is nil when
  \<^verbatim>\<open>*f.Org = orgNameStr\<close> stores through it; a store through a nil pointer panics. On
  an error the Go function returns zero values beside it; the model returns the error.
\<close>

definition store_Org ::
  "NotificationEndpointFilter \<Rightarrow> string \<Rightarrow> panic + NotificationEndpointFilter" where
  "store_Org f orgNameStr =
     (case NotificationEndpointFilter.Org f of
        None \<Rightarrow> Inl NilPointerDereference
      | Some old \<Rightarrow> Inr (f\<lparr>NotificationEndpointFilter.Org := Some orgNameStr\<rparr>))"

definition decodeNotificationEndpointFilter ::
  "(Request \<Rightarrow> Error + 'opts) \<Rightarrow> (string \<Rightarrow> Error + ID) \<Rightarrow> Request
   \<Rightarrow> panic + (Error + NotificationEndpointFilter \<times> 'opts)" where
  "decodeNotificationEndpointFilter decodeFindOptions IDFromString r =
     (let f = \<lparr>ResourceType = NotificationEndpointResourceType, UserID = 0,
                NotificationEndpointFilter.OrgID = None,
                NotificationEndpointFilter.Org = None\<rparr>
      in case decodeFindOptions r of
           Inl err \<Rightarrow> Inr (Inl err)
         | Inr opts \<Rightarrow>
             let q = query r;
                 orgIDStr = Values_Get q ''orgID'';
                 orgNameStr = Values_Get q ''org'';
                 step =
                   (if orgIDStr \<noteq> '''' then
                      (case IDFromString orgIDStr of
                         Inl err \<Rightarrow> Inr (Inl (Error EInvalid ''orgID is invalid'' (Some err)))
                       | Inr orgID \<Rightarrow>
                           Inr (Inr (f\<lparr>NotificationEndpointFilter.OrgID := Some orgID\<rparr>)))
                    else if orgNameStr \<noteq> '''' then
                      (case store_Org f orgNameStr of
                         Inl p \<Rightarrow> Inl p
                       | Inr f' \<Rightarrow> Inr (Inr f'))
                    else Inr (Inr f))
             in case step of
                  Inl p \<Rightarrow> Inl p
                | Inr (Inl err) \<Rightarrow> Inr (Inl err)
                | Inr (Inr f1) \<Rightarrow>
                    let userID = Values_Get q ''user''
                    in if userID \<noteq> '''' then
                         (case IDFromString userID of
                            Inl err \<Rightarrow> Inr (Inl err)
                          | Inr i \<Rightarrow> Inr (Inr (f1\<lparr>UserID := i\<rparr>, opts)))
                       else Inr (Inr (f1, opts)))"

section \<open>The HTTP client\<close>

text \<open>
  \<^verbatim>\<open>influxdb.EndpointUpdate\<close>: the update mode, the target and the mutator. A Go closure
  may write to what it captured, so \<open>Fn\<close> runs on the state \<open>'st\<close> (everything outside
  the function at hand) and returns it; it returns a non-nil endpoint beside its error.
  \<^verbatim>\<open>influxdb.NotificationEndpointUpdate\<close> is the change-set, a nil pointer for a field
  that is to stay.
\<close>

record 'st EndpointUpdate =
  UpdateType :: string
  ID :: ID
  Fn :: "Time \<Rightarrow> NotificationEndpoint \<Rightarrow> 'st \<Rightarrow> (NotificationEndpoint \<times> Error option) \<times> 'st"

record NotificationEndpointUpdate =
  Name :: "string option"
  Description :: "string option"
  Status :: "string option"

text \<open>
  The requests of \<^verbatim>\<open>httpc.Client\<close> the update paths make, each with its
  \<^verbatim>\<open>DecodeJSON(&resp).Do(ctx)\<close>: the decoded endpoint of the response or the error, and
  the state after the exchange.
\<close>

record 'st Client =
  PutJSON :: "object \<Rightarrow> string list \<Rightarrow> 'st \<Rightarrow> (Error + NotificationEndpoint) \<times> 'st"
  PatchJSON ::
    "NotificationEndpointUpdate \<Rightarrow> string list \<Rightarrow> 'st \<Rightarrow> (Error + NotificationEndpoint) \<times> 'st"

definition prefixNotificationEndpoints :: string where
  "prefixNotificationEndpoints = ''/api/v2/notificationEndpoints''"

definition HTTP_zero :: HTTP where
  "HTTP_zero =
     \<lparr>EndpointBase.ID = 0, EndpointBase.OrgID = 0, EndpointBase.Name = '''',
      EndpointBase.Description = '''', EndpointBase.Status = '''',
      CreatedAt = Time_zero, UpdatedAt = Time_zero,
      HTTP.URL = '''', Headers = [],
      HTTP.Token = \<lparr>Key = '''', Value = None\<rparr>,
      Username = \<lparr>Key = '''', Value = None\<rparr>,
      Password = \<lparr>Key = '''', Value = None\<rparr>,
      AuthMethod = '''', Method = '''', ContentTemplate = ''''\<rparr>"

text \<open>\<^verbatim>\<open>func (s *NotificationEndpointService) update\<close>.\<close>

definition NotificationEndpointService_update ::
  "(ID \<Rightarrow> string) \<Rightarrow> 'st Client \<Rightarrow> 'st EndpointUpdate \<Rightarrow> 'st
   \<Rightarrow> (Error + NotificationEndpoint) \<times> 'st" where
  "NotificationEndpointService_update idString c update st =
     (let ((endpoint, err), st1) = Fn update Time_zero (OfHTTP HTTP_zero) st;
          path = [prefixNotificationEndpoints, idString (EndpointBase.ID (Base endpoint))];
          (body, endpoint') = notificationEndpointEncoder_MarshalJSON idString endpoint
      in PutJSON c body path st1)"

text \<open>\<^verbatim>\<open>func (s *NotificationEndpointService) patch\<close>.\<close>

definition NotificationEndpointService_patch ::
  "(ID \<Rightarrow> string) \<Rightarrow> 'st Client \<Rightarrow> 'st EndpointUpdate \<Rightarrow> 'st
   \<Rightarrow> (Error + NotificationEndpoint) \<times> 'st" where
  "NotificationEndpointService_patch idString c update st =
     (let ((endpoint, err), st1) = Fn update Time_zero (OfHTTP HTTP_zero) st;
          base = Base endpoint;
          body0 = \<lparr>Name = None, Description = None, Status = None\<rparr>;
          body1 = (if EndpointBase.Name base \<noteq> ''''
                   then body0\<lparr>NotificationEndpointUpdate.Name := Some (EndpointBase.Name base)\<rparr>
                   else body0);
          body2 = body1\<lparr>NotificationEndpointUpdate.Description :=
                          Some (EndpointBase.Description base)\<rparr>;
          body3 = (if Status_Valid (EndpointBase.Status base) = None
                   then body2\<lparr>NotificationEndpointUpdate.Status :=
                                  Some (EndpointBase.Status base)\<rparr>
                   else body2);
          path = [prefixNotificationEndpoints, idString (EndpointBase.ID (Base endpoint))]
      in PatchJSON c body3 path st1)"

text \<open>\<^verbatim>\<open>func (s *NotificationEndpointService) Update\<close>: the switch on the update mode.\<close>

definition NotificationEndpointService_Update ::
  "(ID \<Rightarrow> string) \<Rightarrow> 'st Client \<Rightarrow> 'st EndpointUpdate \<Rightarrow> 'st
   \<Rightarrow> (Error + NotificationEndpoint) \<times> 'st" where
  "NotificationEndpointService_Update idString c update st =
     (if UpdateType update = ''endpoint'' then
        NotificationEndpointService_update idString c update st
      else if UpdateType update = ''change_set'' then
        NotificationEndpointService_patch idString c update st
      else (Inl (Error EInvalid ''invalid update provided'' None), st))"

section \<open>The HTTP handlers\<close>

text \<open>
  \<^verbatim>\<open>influxdb.Label\<close> and \<^verbatim>\<open>influxdb.LabelMapping\<close>, and the services a
  \<^verbatim>\<open>NotificationEndpointHandler\<close> holds (\<^verbatim>\<open>NotificationEndpointService\<close>,
  \<^verbatim>\<open>LabelService\<close>). They are interfaces: each method is a field, run on the state
  \<open>'st\<close> behind the services. \<^verbatim>\<open>Create\<close> writes to the endpoint it is handed (a
  pointer), so it returns the endpoint as it left it. The two finders read; when one
  succeeds, what it returns is not nil.
\<close>

record Label =
  ID :: ID
  Name :: string
  Properties :: "(string \<times> string) list"

record LabelMapping =
  LabelID :: ID
  ResourceID :: ID
  ResourceType :: string

record 'st Services =
  Create :: "ID \<Rightarrow> NotificationEndpoint \<Rightarrow> 'st \<Rightarrow> (Error option \<times> NotificationEndpoint) \<times> 'st"
  Update :: "'st EndpointUpdate \<Rightarrow> 'st \<Rightarrow> (Error + NotificationEndpoint) \<times> 'st"
  FindLabelByID :: "ID \<Rightarrow> 'st \<Rightarrow> Error + Label"
  CreateLabelMapping :: "LabelMapping \<Rightarrow> 'st \<Rightarrow> Error option \<times> 'st"
  FindResourceLabels :: "ID \<Rightarrow> 'st \<Rightarrow> Error + Label list"

record notificationEndpointLinks =
  Self :: string
  Labels :: string
  Members :: string
  Owners :: string

record postNotificationEndpointRequest =
  NotificationEndpoint :: NotificationEndpoint
  Labels :: "string list"

record notificationEndpointResponse =
  NotificationEndpoint :: NotificationEndpoint
  Labels :: "Label list"
  Links :: notificationEndpointLinks

text \<open>
  What a handler answers: an error handed to \<^verbatim>\<open>HandleHTTPError\<close>, a status with an
  encoded response, or a bare status.
\<close>

datatype Response =
  HTTPError Error
| Encoded nat notificationEndpointResponse
| Status nat

definition StatusOK :: nat where
  "StatusOK = 200"

definition StatusCreated :: nat where
  "StatusCreated = 201"

text \<open>\<^verbatim>\<open>newNotificationEndpointResponse\<close>; \<^verbatim>\<open>%s\<close> prints the identifier with \<open>idString\<close>.\<close>

definition newNotificationEndpointResponse ::
  "(ID \<Rightarrow> string) \<Rightarrow> NotificationEndpoint \<Rightarrow> Label list \<Rightarrow> notificationEndpointResponse" where
  "newNotificationEndpointResponse idString edp labels =
     (let i = idString (EndpointBase.ID (Base edp));
          res = \<lparr>notificationEndpointResponse.NotificationEndpoint = edp,
                  notificationEndpointResponse.Labels = [],
                  Links = \<lparr>Self = ''/api/v2/notificationEndpoints/'' @ i,
                            notificationEndpointLinks.Labels =
                              ''/api/v2/notificationEndpoints/'' @ i @ ''/labels'',
                            Members = ''/api/v2/notificationEndpoints/'' @ i @ ''/members'',
                            Owners = ''/api/v2/notificationEndpoints/'' @ i @ ''/owners''\<rparr>\<rparr>
      in foldl (\<lambda>res l. res\<lparr>notificationEndpointResponse.Labels :=
                                 notificationEndpointResponse.Labels res @ [l]\<rparr>) res labels)"

text \<open>
  \<^verbatim>\<open>decodePostNotificationEndpointRequest\<close>. \<^verbatim>\<open>endpoint.UnmarshalJSON\<close> is the
  parameter \<open>unmarshal\<close>. The type \<^verbatim>\<open>decodeLabels\<close> is not under \<^verbatim>\<open>src/\<close>; the code
  reads its \<^verbatim>\<open>Labels\<close>, a \<^verbatim>\<open>[]string\<close>, which \<open>decodeLabels_Labels\<close> takes from the
  member \<^verbatim>\<open>labels\<close>.
\<close>

fun string_of :: "json \<Rightarrow> string option" where
  "string_of (JString s) = Some s"
| "string_of _ = None"

definition decodeLabels_Labels :: "json \<Rightarrow> Error + string list" where
  "decodeLabels_Labels b =
     (case b of
        JObject obj \<Rightarrow>
          (case map_of obj ''labels'' of
             None \<Rightarrow> Inr []
           | Some (JArray xs) \<Rightarrow>
               (case those (map string_of xs) of
                  Some ls \<Rightarrow> Inr ls
                | None \<Rightarrow> Inl (Error EInvalid ''labels'' None))
           | Some _ \<Rightarrow> Inl (Error EInvalid ''labels'' None))
      | _ \<Rightarrow> Inl (Error EInvalid ''labels'' None))"

definition decodePostNotificationEndpointRequest ::
  "(json \<Rightarrow> Error + NotificationEndpoint) \<Rightarrow> Request
   \<Rightarrow> Error + postNotificationEndpointRequest" where
  "decodePostNotificationEndpointRequest unmarshal r =
     (case body r of
        None \<Rightarrow> Inl (Error EInvalid '''' None)
      | Some b \<Rightarrow>
          (case unmarshal b of
             Inl err \<Rightarrow> Inl (Error EInvalid '''' (Some err))
           | Inr edp \<Rightarrow>
               (case decodeLabels_Labels b of
                  Inl err \<Rightarrow> Inl (Error EInvalid '''' (Some err))
                | Inr ls \<Rightarrow>
                    Inr \<lparr>postNotificationEndpointRequest.NotificationEndpoint = edp,
                         postNotificationEndpointRequest.Labels = ls\<rparr>)))"

text \<open>
  \<^verbatim>\<open>mapNewNotificationEndpointLabels\<close>: the loop over the label identifiers, with the
  slice \<^verbatim>\<open>ls\<close> it appends to; each \<^verbatim>\<open>continue\<close> goes on with the next identifier.
  \<^verbatim>\<open>influxdb.ID.DecodeFromString\<close> is the parameter \<open>DecodeFromString\<close>.
\<close>

fun mapLabels_loop ::
  "(string \<Rightarrow> Error + ID) \<Rightarrow> 'st Services \<Rightarrow> NotificationEndpoint \<Rightarrow> string list
   \<Rightarrow> Label list \<Rightarrow> 'st \<Rightarrow> Label list \<times> 'st" where
  "mapLabels_loop DecodeFromString h nre [] ls st = (ls, st)"
| "mapLabels_loop DecodeFromString h nre (sid # labels) ls st =
     (case DecodeFromString sid of
        Inl err \<Rightarrow> mapLabels_loop DecodeFromString h nre labels ls st
      | Inr lid \<Rightarrow>
          (case FindLabelByID h lid st of
             Inl err \<Rightarrow> mapLabels_loop DecodeFromString h nre labels ls st
           | Inr label \<Rightarrow>
               (let mapping = \<lparr>LabelID = Label.ID label,
                                ResourceID = EndpointBase.ID (Base nre),
                                ResourceType = NotificationEndpointResourceType\<rparr>
                in case CreateLabelMapping h mapping st of
                     (Some err, st') \<Rightarrow> mapLabels_loop DecodeFromString h nre labels ls st'
                   | (None, st') \<Rightarrow>
                       mapLabels_loop DecodeFromString h nre labels (ls @ [label]) st')))"

definition mapNewNotificationEndpointLabels ::
  "(string \<Rightarrow> Error + ID) \<Rightarrow> 'st Services \<Rightarrow> NotificationEndpoint \<Rightarrow> string list
   \<Rightarrow> 'st \<Rightarrow> Label list \<times> 'st" where
  "mapNewNotificationEndpointLabels DecodeFromString h nre labels st =
     mapLabels_loop DecodeFromString h nre labels [] st"

text \<open>\<^verbatim>\<open>handlePostNotificationEndpoint\<close>. A failure to encode the response is only logged.\<close>

definition handlePostNotificationEndpoint ::
  "(ID \<Rightarrow> string) \<Rightarrow> (json \<Rightarrow> Error + NotificationEndpoint) \<Rightarrow> (string \<Rightarrow> Error + ID)
   \<Rightarrow> 'st Services \<Rightarrow> Request \<Rightarrow> 'st \<Rightarrow> Response \<times> 'st" where
  "handlePostNotificationEndpoint idString unmarshal DecodeFromString h r st =
     (case decodePostNotificationEndpointRequest unmarshal r of
        Inl err \<Rightarrow> (HTTPError err, st)
      | Inr edp \<Rightarrow>
          (case authorizer r of
             Inl err \<Rightarrow> (HTTPError err, st)
           | Inr userID \<Rightarrow>
               (case Create h userID (postNotificationEndpointRequest.NotificationEndpoint edp) st of
                  ((Some err, created), st1) \<Rightarrow> (HTTPError err, st1)
                | ((None, created), st1) \<Rightarrow>
                    (let (labels, st2) =
                           mapNewNotificationEndpointLabels DecodeFromString h created
                             (postNotificationEndpointRequest.Labels edp) st1
                     in (Encoded StatusCreated
                           (newNotificationEndpointResponse idString created labels), st2)))))"

text \<open>
  What became of each label identifier of a Create, in the order of the request: it did
  not decode, its label was not found, its mapping failed, or the label was attached.
  The spec's words: a label that fails to attach is skipped, not fatal to the Create.
\<close>

datatype attach = Undecoded Error | Unresolved Error | Unmapped Error | Attached Label

fun attach_outcomes ::
  "(string \<Rightarrow> Error + ID) \<Rightarrow> 'st Services \<Rightarrow> NotificationEndpoint \<Rightarrow> string list \<Rightarrow> 'st
   \<Rightarrow> attach list" where
  "attach_outcomes DecodeFromString h nre [] st = []"
| "attach_outcomes DecodeFromString h nre (sid # labels) st =
     (case DecodeFromString sid of
        Inl err \<Rightarrow> Undecoded err # attach_outcomes DecodeFromString h nre labels st
      | Inr lid \<Rightarrow>
          (case FindLabelByID h lid st of
             Inl err \<Rightarrow> Unresolved err # attach_outcomes DecodeFromString h nre labels st
           | Inr label \<Rightarrow>
               (case CreateLabelMapping h
                       \<lparr>LabelID = Label.ID label, ResourceID = EndpointBase.ID (Base nre),
                        ResourceType = NotificationEndpointResourceType\<rparr> st of
                  (Some err, st') \<Rightarrow>
                    Unmapped err # attach_outcomes DecodeFromString h nre labels st'
                | (None, st') \<Rightarrow>
                    Attached label # attach_outcomes DecodeFromString h nre labels st')))"

fun attached :: "attach list \<Rightarrow> Label list" where
  "attached [] = []"
| "attached (Attached l # os) = l # attached os"
| "attached (other # os) = attached os"

subsection \<open>PATCH\<close>

text \<open>
  Writes to the base through \<^verbatim>\<open>Base()\<close>, the pointer to the embedded
  \<^verbatim>\<open>EndpointBase\<close>: the variant and its other fields stay.
\<close>

fun set_Name :: "string \<Rightarrow> NotificationEndpoint \<Rightarrow> NotificationEndpoint" where
  "set_Name n (OfSlack s) = OfSlack (s\<lparr>EndpointBase.Name := n\<rparr>)"
| "set_Name n (OfHTTP h) = OfHTTP (h\<lparr>EndpointBase.Name := n\<rparr>)"

fun set_Description :: "string \<Rightarrow> NotificationEndpoint \<Rightarrow> NotificationEndpoint" where
  "set_Description d (OfSlack s) = OfSlack (s\<lparr>EndpointBase.Description := d\<rparr>)"
| "set_Description d (OfHTTP h) = OfHTTP (h\<lparr>EndpointBase.Description := d\<rparr>)"

fun set_Status :: "string \<Rightarrow> NotificationEndpoint \<Rightarrow> NotificationEndpoint" where
  "set_Status x (OfSlack s) = OfSlack (s\<lparr>EndpointBase.Status := x\<rparr>)"
| "set_Status x (OfHTTP h) = OfHTTP (h\<lparr>EndpointBase.Status := x\<rparr>)"

fun set_UpdatedAt :: "Time \<Rightarrow> NotificationEndpoint \<Rightarrow> NotificationEndpoint" where
  "set_UpdatedAt t (OfSlack s) = OfSlack (s\<lparr>UpdatedAt := t\<rparr>)"
| "set_UpdatedAt t (OfHTTP h) = OfHTTP (h\<lparr>UpdatedAt := t\<rparr>)"

fun endpoint_URL :: "NotificationEndpoint \<Rightarrow> string" where
  "endpoint_URL (OfSlack s) = Slack.URL s"
| "endpoint_URL (OfHTTP h) = HTTP.URL h"

text \<open>
  Modelled from the spec: \<^verbatim>\<open>endpoints.UpdateChangeSet\<close> is not under \<^verbatim>\<open>src/\<close>. The
  change-set's mutator takes the current variant and overwrites only the base fields
  present in the change-set (name, description, status; absent means no change); the
  last-update timestamp is set on every update; the result is validated again.
\<close>

definition apply_field ::
  "'a option \<Rightarrow> ('a \<Rightarrow> NotificationEndpoint \<Rightarrow> NotificationEndpoint) \<Rightarrow> NotificationEndpoint
   \<Rightarrow> NotificationEndpoint" where
  "apply_field field setter e = (case field of None \<Rightarrow> e | Some v \<Rightarrow> setter v e)"

definition UpdateChangeSet ::
  "(string \<Rightarrow> string option) \<Rightarrow> ID \<Rightarrow> NotificationEndpointUpdate \<Rightarrow> 'st EndpointUpdate" where
  "UpdateChangeSet url_Parse i upd =
     \<lparr>UpdateType = ''change_set'', EndpointUpdate.ID = i,
      Fn = (\<lambda>now existing st.
              let e1 = apply_field (NotificationEndpointUpdate.Name upd) set_Name existing;
                  e2 = apply_field (NotificationEndpointUpdate.Description upd) set_Description e1;
                  e3 = apply_field (NotificationEndpointUpdate.Status upd) set_Status e2;
                  e4 = set_UpdatedAt now e3
              in ((e4, Valid url_Parse e4), st))\<rparr>"

text \<open>
  Modelled from the spec: the Update Protocol of the service behind the handlers
  (\<^verbatim>\<open>endpoints.Service.Update\<close>, not under \<^verbatim>\<open>src/\<close>) over the persistence
  collaborator \<open>Get\<close>/\<open>Put\<close>. It loads the current variant (\<open>NotFound\<close> when there
  is none), applies the mutator to it with the update timestamp, and persists the result;
  a validation failure after the mutation is returned and nothing is committed.
\<close>

type_synonym store = "ID \<Rightarrow> NotificationEndpoint option"

definition Service_Update ::
  "Time \<Rightarrow> store EndpointUpdate \<Rightarrow> store \<Rightarrow> (Error + NotificationEndpoint) \<times> store" where
  "Service_Update now upd st =
     (case st (EndpointUpdate.ID upd) of
        None \<Rightarrow> (Inl (Error ENotFound ''notification endpoint not found'' None), st)
      | Some current \<Rightarrow>
          (case Fn upd now current st of
             ((new, Some err), st1) \<Rightarrow> (Inl err, st1)
           | ((new, None), st1) \<Rightarrow> (Inr new, st1(EndpointUpdate.ID upd \<mapsto> new))))"

text \<open>
  \<^verbatim>\<open>decodePatchNotificationEndpointRequest\<close>. \<^verbatim>\<open>influxdb.IDFromString\<close> and
  \<^verbatim>\<open>NotificationEndpointUpdate.Valid\<close> are parameters. The JSON tags of
  \<^verbatim>\<open>NotificationEndpointUpdate\<close> are not under \<^verbatim>\<open>src/\<close>: \<open>decode_update\<close> reads the
  members \<^verbatim>\<open>name\<close>, \<^verbatim>\<open>description\<close> and \<^verbatim>\<open>status\<close>, a missing one leaving the nil
  pointer.
\<close>

record patchNotificationEndpointRequest =
  ID :: ID
  Update :: NotificationEndpointUpdate

definition get_opt_string :: "object \<Rightarrow> string \<Rightarrow> string + string option" where
  "get_opt_string obj name =
     (case map_of obj name of
        None \<Rightarrow> Inr None
      | Some (JString s) \<Rightarrow> Inr (Some s)
      | Some _ \<Rightarrow> Inl (''cannot unmarshal into field '' @ name))"

definition decode_update :: "json option \<Rightarrow> string + NotificationEndpointUpdate" where
  "decode_update b =
     (case b of
        Some (JObject obj) \<Rightarrow>
          bindE (get_opt_string obj ''name'') (\<lambda>n.
          bindE (get_opt_string obj ''description'') (\<lambda>d.
          bindE (get_opt_string obj ''status'') (\<lambda>s.
            Inr \<lparr>NotificationEndpointUpdate.Name = n,
                 NotificationEndpointUpdate.Description = d,
                 NotificationEndpointUpdate.Status = s\<rparr>)))
      | _ \<Rightarrow> Inl ''cannot unmarshal into NotificationEndpointUpdate'')"

definition decodePatchNotificationEndpointRequest ::
  "(string \<Rightarrow> Error + ID) \<Rightarrow> (NotificationEndpointUpdate \<Rightarrow> Error option) \<Rightarrow> Request
   \<Rightarrow> Error + patchNotificationEndpointRequest" where
  "decodePatchNotificationEndpointRequest IDFromString update_Valid r =
     (case IDFromString (ByName (params r) ''id'') of
        Inl err \<Rightarrow> Inl err
      | Inr i \<Rightarrow>
          (case decode_update (body r) of
             Inl msg \<Rightarrow> Inl (Error EInvalid msg None)
           | Inr upd \<Rightarrow>
               (case update_Valid upd of
                  Some err \<Rightarrow> Inl (Error EInvalid (Msg err) None)
                | None \<Rightarrow>
                    Inr \<lparr>patchNotificationEndpointRequest.ID = i,
                         patchNotificationEndpointRequest.Update = upd\<rparr>)))"

text \<open>\<^verbatim>\<open>handlePatchNotificationEndpoint\<close>.\<close>

definition handlePatchNotificationEndpoint ::
  "(ID \<Rightarrow> string) \<Rightarrow> (string \<Rightarrow> Error + ID) \<Rightarrow> (NotificationEndpointUpdate \<Rightarrow> Error option)
   \<Rightarrow> (string \<Rightarrow> string option) \<Rightarrow> 'st Services \<Rightarrow> Request \<Rightarrow> 'st \<Rightarrow> Response \<times> 'st" where
  "handlePatchNotificationEndpoint idString IDFromString update_Valid url_Parse h r st =
     (case decodePatchNotificationEndpointRequest IDFromString update_Valid r of
        Inl err \<Rightarrow> (HTTPError err, st)
      | Inr req \<Rightarrow>
          (case Services.Update h
                  (UpdateChangeSet url_Parse (patchNotificationEndpointRequest.ID req)
                     (patchNotificationEndpointRequest.Update req)) st of
             (Inl err, st1) \<Rightarrow> (HTTPError err, st1)
           | (Inr edp, st1) \<Rightarrow>
               (case FindResourceLabels h (EndpointBase.ID (Base edp)) st1 of
                  Inl err \<Rightarrow> (HTTPError err, st1)
                | Inr labels \<Rightarrow>
                    (Encoded StatusOK (newNotificationEndpointResponse idString edp labels),
                     st1))))"

section \<open>Concrete endpoints\<close>

text \<open>
  A Slack endpoint as the tests build it, with the identifier the tests' generator hands
  out and a token supplied by the caller (no key yet).
\<close>

definition ex_slack :: Slack where
  "ex_slack =
     \<lparr>EndpointBase.ID = 0x020f755c3c082000, EndpointBase.OrgID = 0x6f626f7274697320,
      EndpointBase.Name = ''hello'', EndpointBase.Description = ''desc1'',
      EndpointBase.Status = Active, CreatedAt = 0, UpdatedAt = 0,
      Slack.URL = ''http://example.com'',
      Slack.Token = \<lparr>Key = '''', Value = Some ''tok''\<rparr>\<rparr>"

text \<open>The list request \<^verbatim>\<open>GET /api/v2/notificationEndpoints?org=myorg\<close>.\<close>

definition ex_org_request :: Request where
  "ex_org_request =
     \<lparr>query = [(''org'', [''myorg''])], params = [], body = None, authorizer = Inr 1\<rparr>"

text \<open>
  A client and a mutator that both count their calls in the state, and an update whose
  mode is neither of the two the client knows.
\<close>

definition ex_client :: "nat Client" where
  "ex_client =
     \<lparr>PutJSON = (\<lambda>b p st. (Inl (Error EInternal ''put'' None), Suc st)),
      PatchJSON = (\<lambda>b p st. (Inl (Error EInternal ''patch'' None), Suc st))\<rparr>"

definition ex_bogus_update :: "nat EndpointUpdate" where
  "ex_bogus_update =
     \<lparr>UpdateType = ''replace'', EndpointUpdate.ID = 0x020f755c3c082000,
      Fn = (\<lambda>now e st. ((e, None), Suc st))\<rparr>"

text \<open>
  Stand-ins for the parameters at concrete inputs: an identifier parser that knows four
  identifiers, and \<^verbatim>\<open>endpoint.UnmarshalJSON\<close> as the spec's Decode.
\<close>

definition ex_IDFromString :: "string \<Rightarrow> Error + ID" where
  "ex_IDFromString s =
     (if s = ''020f755c3c082000'' then Inr 0x020f755c3c082000
      else if s = ''0000000000000001'' then Inr 1
      else if s = ''0000000000000002'' then Inr 2
      else if s = ''0000000000000003'' then Inr 3
      else Inl (Error EInvalid ''id must have a length of 16 bytes'' None))"

definition ex_unmarshal :: "json \<Rightarrow> Error + NotificationEndpoint" where
  "ex_unmarshal b =
     (case b of
        JObject obj \<Rightarrow>
          (case UnmarshalJSON obj of
             Inl err \<Rightarrow> Inl (Error EInvalid ''invalid notification endpoint'' None)
           | Inr e \<Rightarrow> Inr e)
      | _ \<Rightarrow> Inl (Error EInvalid ''invalid notification endpoint'' None))"

text \<open>
  A label service that finds the labels 1 and 2 and fails to map label 2; its state is
  the list of the mappings created. The Create request names an identifier that does not
  decode, then the labels 1, 2 and 3.
\<close>

definition ex_label :: "ID \<Rightarrow> Label" where
  "ex_label i = \<lparr>Label.ID = i, Label.Name = ''label'', Properties = [(''color'', ''fff000'')]\<rparr>"

definition ex_label_services :: "LabelMapping list Services" where
  "ex_label_services =
     \<lparr>Create = (\<lambda>userID e st. ((None, BackfillSecretKeys hexID e), st)),
      Services.Update = (\<lambda>u st. (Inl (Error ENotFound ''notification endpoint not found'' None), st)),
      FindLabelByID = (\<lambda>lid st. if lid = 1 \<or> lid = 2 then Inr (ex_label lid)
                                  else Inl (Error ENotFound ''label not found'' None)),
      CreateLabelMapping = (\<lambda>m st. if LabelID m = 2
                                     then (Some (Error EInternal ''mapping failed'' None), st)
                                     else (None, st @ [m])),
      FindResourceLabels = (\<lambda>i st. Inr [])\<rparr>"

definition ex_post_request :: Request where
  "ex_post_request =
     \<lparr>query = [], params = [],
      body = Some (JObject
        [(''name'', JString ''hello''), (''type'', JString ''slack''),
         (''status'', JString ''active''), (''url'', JString ''http://example.com''),
         (''labels'', JArray [JString ''zz'', JString ''0000000000000001'',
            JString ''0000000000000002'', JString ''0000000000000003''])]),
      authorizer = Inr 5\<rparr>"

definition ex_decoded_slack :: Slack where
  "ex_decoded_slack =
     \<lparr>EndpointBase.ID = 0, EndpointBase.OrgID = 0, EndpointBase.Name = ''hello'',
      EndpointBase.Description = '''', EndpointBase.Status = ''active'',
      CreatedAt = 0, UpdatedAt = 0, Slack.URL = ''http://example.com'',
      Slack.Token = \<lparr>Key = '''', Value = None\<rparr>\<rparr>"

text \<open>
  The store that holds the backfilled \<open>ex_slack\<close>, the update protocol over it, and the
  PATCH of the tests: \<^verbatim>\<open>{"name": "example"}\<close> for \<^verbatim>\<open>020f755c3c082000\<close>.
\<close>

definition ex_store :: store where
  "ex_store = Map.empty(0x020f755c3c082000 \<mapsto> BackfillSecretKeys hexID (OfSlack ex_slack))"

definition ex_store_services :: "Time \<Rightarrow> store Services" where
  "ex_store_services now =
     \<lparr>Create = (\<lambda>userID e st. ((None, e), st(EndpointBase.ID (Base e) \<mapsto> e))),
      Services.Update = Service_Update now,
      FindLabelByID = (\<lambda>lid st. Inl (Error ENotFound ''label not found'' None)),
      CreateLabelMapping = (\<lambda>m st. (None, st)),
      FindResourceLabels = (\<lambda>i st. Inr [])\<rparr>"

definition ex_patch_request :: Request where
  "ex_patch_request =
     \<lparr>query = [], params = [(''id'', ''020f755c3c082000'')],
      body = Some (JObject [(''name'', JString ''example'')]), authorizer = Inr 1\<rparr>"

section \<open>Backfill of secret keys\<close>

lemma hexID_ex: "hexID 0x020f755c3c082000 = ''020f755c3c082000''"
  by code_simp

lemma backfill_field_idem:
  "backfill_field i sfx (backfill_field i sfx f) = backfill_field i sfx f"
  by (auto simp add: backfill_field_def)

lemma Slack_Backfill_idem:
  "Slack_BackfillSecretKeys idString (Slack_BackfillSecretKeys idString s) =
   Slack_BackfillSecretKeys idString s"
  by (auto simp add: Slack_BackfillSecretKeys_def)

lemma HTTP_Backfill_idem:
  "HTTP_BackfillSecretKeys idString (HTTP_BackfillSecretKeys idString s) =
   HTTP_BackfillSecretKeys idString s"
  by (simp add: HTTP_BackfillSecretKeys_def backfill_field_idem)

lemma Backfill_idem:
  "BackfillSecretKeys idString (BackfillSecretKeys idString e) = BackfillSecretKeys idString e"
  by (cases e) (simp_all add: Slack_Backfill_idem HTTP_Backfill_idem)

lemma Backfill_funpow:
  "(BackfillSecretKeys idString ^^ Suc n) e = BackfillSecretKeys idString e"
  by (induction n) (simp_all add: Backfill_idem)

lemma Backfill_keeps_set_keys:
  "list_all2 (\<lambda>k k'. k \<noteq> '''' \<longrightarrow> k' = k)
     (secret_keys e) (secret_keys (BackfillSecretKeys idString e))"
  by (cases e)
    (simp_all add: secret_keys_def Slack_BackfillSecretKeys_def HTTP_BackfillSecretKeys_def
      backfill_field_def)

text \<open>
  C3. For every endpoint variant and every \<open>n \<ge> 1\<close>, calling \<open>BackfillSecretKeys\<close>
  \<open>n\<close> times yields the same endpoint, hence the same secret keys, as calling it once;
  a call never overwrites a key that is already set: each key that is non-empty before
  the call, be it set by an earlier call or by the caller, is the same after it.
\<close>

theorem BackfillSecretKeys_idempotent:
  assumes "1 \<le> n"
  shows "(BackfillSecretKeys idString ^^ n) e = BackfillSecretKeys idString e
       \<and> secret_keys ((BackfillSecretKeys idString ^^ n) e) =
           secret_keys (BackfillSecretKeys idString e)
       \<and> list_all2 (\<lambda>k k'. k \<noteq> '''' \<longrightarrow> k' = k)
            (secret_keys e) (secret_keys (BackfillSecretKeys idString e))"
proof -
  from assms obtain m where n: "n = Suc m" by (cases n) auto
  have "(BackfillSecretKeys idString ^^ n) e = BackfillSecretKeys idString e"
    unfolding n by (rule Backfill_funpow)
  then show ?thesis by (simp add: Backfill_keeps_set_keys)
qed

theorem BackfillSecretKeys_idempotent_witness:
  "(1::nat) \<le> 3
   \<and> secret_keys ((BackfillSecretKeys hexID ^^ 3) (OfSlack ex_slack)) =
       [''020f755c3c082000-token'']"
  using BackfillSecretKeys_idempotent [of 3 hexID "OfSlack ex_slack"]
  by (simp add: ex_slack_def secret_keys_def Slack_BackfillSecretKeys_def slackTokenSuffix_def
      hexID_ex)

text \<open>
  C4. Backfill goes through the secret fields of the variant in place. A field whose key
  is empty and whose value is present (the code tests the pointer, so also a present
  empty string) gets the key \<open>idString ID @ suffix\<close> and keeps its value; a field
  whose key is already non-empty, or whose value is absent, is left as it is. The
  suffixes are \<open>-token\<close> for Slack and \<open>-token\<close>, \<open>-username\<close>, \<open>-password\<close> for
  the HTTP variant.
\<close>

theorem BackfillSecretKeys_derives_key:
  "list_all2
     (\<lambda>(suffix, f) (suffix', f').
        suffix' = suffix
        \<and> (Key f = '''' \<and> Value f \<noteq> None \<longrightarrow>
             f' = f\<lparr>Key := idString (EndpointBase.ID (Base e)) @ suffix\<rparr>)
        \<and> (Key f \<noteq> '''' \<or> Value f = None \<longrightarrow> f' = f))
     (secret_slots e) (secret_slots (BackfillSecretKeys idString e))
   \<and> map fst (secret_slots e) =
       (case e of OfSlack s \<Rightarrow> [''-token'']
        | OfHTTP h \<Rightarrow> [''-token'', ''-username'', ''-password''])"
  by (cases e)
    (auto simp add: Slack_BackfillSecretKeys_def HTTP_BackfillSecretKeys_def backfill_field_def
      EndpointBase.truncate_def slackTokenSuffix_def httpTokenSuffix_def httpUsernameSuffix_def
      httpPasswordSuffix_def)

theorem BackfillSecretKeys_derives_key_witness:
  "secret_slots (BackfillSecretKeys hexID (OfSlack ex_slack)) =
     [(''-token'', \<lparr>Key = ''020f755c3c082000-token'', Value = Some ''tok''\<rparr>)]"
  using BackfillSecretKeys_derives_key [of hexID "OfSlack ex_slack"]
  by (simp add: ex_slack_def slackTokenSuffix_def EndpointBase.truncate_def hexID_ex
      list_all2_Cons1 split: prod.splits)

section \<open>Validation of the Slack variant\<close>

text \<open>
  C7. For every Slack endpoint, \<open>Valid\<close> returns an error exactly when the name is
  empty, the status is neither \<open>active\<close> nor \<open>inactive\<close>, the URL is empty, or the URL
  does not parse; every error it returns has the code \<open>EInvalid\<close>; otherwise it
  returns nil. It is a function of the endpoint's value alone and yields its result only.
\<close>

theorem Slack_Valid_iff:
  "(Slack_Valid url_Parse s \<noteq> None \<longleftrightarrow>
      EndpointBase.Name s = ''''
      \<or> (EndpointBase.Status s \<noteq> ''active'' \<and> EndpointBase.Status s \<noteq> ''inactive'')
      \<or> Slack.URL s = '''' \<or> url_Parse (Slack.URL s) \<noteq> None)
   \<and> (\<forall>err. Slack_Valid url_Parse s = Some err \<longrightarrow> Code err = EInvalid)"
  by (auto simp add: Slack_Valid_def EndpointBase_Valid_def Status_Valid_def Active_def
      Inactive_def split: option.splits if_splits)

theorem Slack_Valid_iff_witness:
  "Slack_Valid (\<lambda>u. None) (ex_slack\<lparr>Slack.URL := ''''\<rparr>) =
     Some (Error EInvalid ''slack endpoint URL must be provided'' None)
   \<and> Slack_Valid (\<lambda>u. None) ex_slack = None"
  using Slack_Valid_iff [of "\<lambda>u. None" "ex_slack\<lparr>Slack.URL := ''''\<rparr>"]
    Slack_Valid_iff [of "\<lambda>u. None" ex_slack]
  by (simp add: ex_slack_def Slack_Valid_def EndpointBase_Valid_def Status_Valid_def Active_def)

section \<open>Encoding\<close>

lemma map_of_base_members_other:
  "name \<notin> {''id'', ''orgID'', ''name'', ''description'', ''status'', ''createdAt'', ''updatedAt''}
   \<Longrightarrow> map_of (EndpointBase_members b @ rest) name = map_of rest name"
  by (simp add: EndpointBase_members_def map_add_def)

lemma MarshalJSON_distinct: "distinct (map fst (MarshalJSON e))"
  by (cases e)
    (simp_all add: Slack_MarshalJSON_def HTTP_MarshalJSON_def EndpointBase_members_def)

text \<open>
  C2. In the JSON a variant marshals to, each member name occurs once, and each secret
  field stands under its public wire name as the empty string when it has no key and as
  \<open>secret: \<close> followed by the key otherwise; and the whole output is that of the
  endpoint with every plaintext dropped, so no plaintext value, whatever it is, reaches
  the encoded JSON.
\<close>

theorem MarshalJSON_redacts:
  "distinct (map fst (MarshalJSON e))
   \<and> map (map_of (MarshalJSON e)) (secret_names e) =
       map (\<lambda>(suffix, f). Some (JString (if Key f = '''' then '''' else ''secret: '' @ Key f)))
         (secret_slots e)
   \<and> MarshalJSON e = MarshalJSON (redact e)"
proof (cases e)
  case (OfSlack s)
  then show ?thesis
    using MarshalJSON_distinct [of e]
    by (simp add: Slack_MarshalJSON_def map_of_base_members_other SecretField_MarshalJSON_def
        SecretField_String_def redact_field_def EndpointBase_members_def Slack_Type_def)
next
  case (OfHTTP h)
  then show ?thesis
    using MarshalJSON_distinct [of e]
    by (simp add: HTTP_MarshalJSON_def map_of_base_members_other SecretField_MarshalJSON_def
        SecretField_String_def redact_field_def EndpointBase_members_def HTTP_Type_def)
qed

text \<open>
  C9. The HTTP client's encoder at the Slack endpoint \<open>ex_slack\<close>, whose identifier
  prints as \<open>020f755c3c082000\<close> and whose token holds the plaintext \<open>tok\<close>: the key is
  backfilled to \<open>020f755c3c082000-token\<close>, the table has no such key, and the plaintext
  lands under the empty member name while \<open>token\<close> stays empty.
\<close>

theorem encoder_misses_public_name:
  "fst (notificationEndpointEncoder_MarshalJSON hexID (OfSlack ex_slack)) =
     [(''id'', JID 0x020f755c3c082000), (''orgID'', JID 0x6f626f7274697320),
      (''name'', JString ''hello''), (''description'', JString ''desc1''),
      (''status'', JString ''active''), (''createdAt'', JTime 0), (''updatedAt'', JTime 0),
      (''url'', JString ''http://example.com''), (''token'', JString ''''),
      (''type'', JString ''slack''), ('''', JString ''tok'')]"
  by (simp add: notificationEndpointEncoder_MarshalJSON_def ex_slack_def Slack_MarshalJSON_def
      EndpointBase_members_def SecretField_MarshalJSON_def SecretField_String_def Slack_Type_def
      SlackType_def Active_def Slack_BackfillSecretKeys_def Slack_SecretFields_def hexID_ex
      slackTokenSuffix_def encoder_store_def fieldMap_index_def fieldMap_def)

section \<open>Round trip\<close>







section \<open>Decoding the list filter\<close>

lemma decode_filter_org_panics:
  assumes "decodeFindOptions r = Inr opts"
    and "Values_Get (query r) ''orgID'' = ''''"
    and "Values_Get (query r) ''org'' \<noteq> ''''"
  shows "decodeNotificationEndpointFilter decodeFindOptions IDFromString r =
           Inl NilPointerDereference"
  using assms by (simp add: decodeNotificationEndpointFilter_def store_Org_def Let_def)

text \<open>
  C10. The request \<^verbatim>\<open>GET /api/v2/notificationEndpoints?org=myorg\<close>, with find options
  that decode: the filter decoder stores the organization name through the nil pointer
  \<^verbatim>\<open>f.Org\<close> and panics; it returns neither a filter nor an error.
\<close>

theorem decodeNotificationEndpointFilter_org_panics:
  "decodeNotificationEndpointFilter (\<lambda>r. Inr ())
     (\<lambda>s. Inl (Error EInvalid ''invalid id'' None)) ex_org_request =
   Inl NilPointerDereference"
  by (simp add: decodeNotificationEndpointFilter_def store_Org_def Let_def ex_org_request_def
      Values_Get_def)

section \<open>The client's Update\<close>

text \<open>
  C6. For every update whose mode is neither \<open>endpoint\<close> (full replace) nor
  \<open>change_set\<close>, whatever the client and the mutator would do, \<open>Update\<close> returns the
  \<open>EInvalid\<close> error "invalid update provided" and leaves the state as it was: it sends
  no request and does not run the mutator.
\<close>

theorem Update_unknown_mode:
  assumes "UpdateType update \<noteq> ''endpoint''" and "UpdateType update \<noteq> ''change_set''"
  shows "NotificationEndpointService_Update idString c update st =
           (Inl (Error EInvalid ''invalid update provided'' None), st)"
  using assms by (simp add: NotificationEndpointService_Update_def)

theorem Update_unknown_mode_witness:
  "UpdateType ex_bogus_update \<noteq> ''endpoint'' \<and> UpdateType ex_bogus_update \<noteq> ''change_set''
   \<and> NotificationEndpointService_Update hexID ex_client ex_bogus_update 7 =
       (Inl (Error EInvalid ''invalid update provided'' None), 7)"
proof -
  have a: "UpdateType ex_bogus_update \<noteq> ''endpoint''" by (simp add: ex_bogus_update_def)
  have b: "UpdateType ex_bogus_update \<noteq> ''change_set''" by (simp add: ex_bogus_update_def)
  from Update_unknown_mode [OF a b] a b show ?thesis by simp
qed

section \<open>Labels of a Create\<close>

lemma mapLabels_loop_attached:
  "fst (mapLabels_loop dec h nre sids ls st) = ls @ attached (attach_outcomes dec h nre sids st)"
  by (induction sids arbitrary: ls st) (auto split: sum.splits option.splits prod.splits)

lemma attach_outcomes_length:
  "length (attach_outcomes dec h nre sids st) = length sids"
  by (induction sids arbitrary: st) (auto split: sum.splits option.splits prod.splits)

lemma response_Labels_foldl:
  "notificationEndpointResponse.Labels
     (foldl (\<lambda>res l. res\<lparr>notificationEndpointResponse.Labels :=
                          notificationEndpointResponse.Labels res @ [l]\<rparr>) res labels) =
   notificationEndpointResponse.Labels res @ labels"
  by (induction labels arbitrary: res) auto

lemma newResponse_Labels:
  "notificationEndpointResponse.Labels (newNotificationEndpointResponse idString edp labels) = labels"
  by (simp add: newNotificationEndpointResponse_def Let_def response_Labels_foldl)

text \<open>
  C8. When the request of a Create decodes, the caller is authorized and the service's
  \<open>Create\<close> succeeds, the handler answers \<open>201 Created\<close> with the created endpoint,
  whatever the label identifiers do: each of them has an outcome (none stops the run),
  and the labels of the response are exactly the labels that were attached, in order
  (the identifier decoded, the label was found and its mapping was created).
\<close>

theorem Create_skips_failed_labels:
  assumes "decodePostNotificationEndpointRequest unmarshal r = Inr req"
    and "authorizer r = Inr userID"
    and "Create h userID (postNotificationEndpointRequest.NotificationEndpoint req) st =
           ((None, created), st1)"
  shows "\<exists>resp st2.
           handlePostNotificationEndpoint idString unmarshal dec h r st =
             (Encoded StatusCreated resp, st2)
           \<and> notificationEndpointResponse.NotificationEndpoint resp = created
           \<and> notificationEndpointResponse.Labels resp =
               attached (attach_outcomes dec h created
                 (postNotificationEndpointRequest.Labels req) st1)
           \<and> length (attach_outcomes dec h created
                 (postNotificationEndpointRequest.Labels req) st1) =
               length (postNotificationEndpointRequest.Labels req)"
proof -
  obtain labels st2 where run:
    "mapNewNotificationEndpointLabels dec h created
       (postNotificationEndpointRequest.Labels req) st1 = (labels, st2)"
    by (cases "mapNewNotificationEndpointLabels dec h created
       (postNotificationEndpointRequest.Labels req) st1")
  have labels: "labels = attached (attach_outcomes dec h created
                 (postNotificationEndpointRequest.Labels req) st1)"
    using run mapLabels_loop_attached [of dec h created
        "postNotificationEndpointRequest.Labels req" "[]" st1]
    by (simp add: mapNewNotificationEndpointLabels_def)
  have "handlePostNotificationEndpoint idString unmarshal dec h r st =
          (Encoded StatusCreated (newNotificationEndpointResponse idString created labels), st2)"
    using assms run by (simp add: handlePostNotificationEndpoint_def)
  moreover have "notificationEndpointResponse.NotificationEndpoint
      (newNotificationEndpointResponse idString created labels) = created"
    by (induction labels rule: rev_induct) (simp_all add: newNotificationEndpointResponse_def Let_def)
  ultimately show ?thesis
    using labels by (simp add: newResponse_Labels attach_outcomes_length)
qed


lemma ex_post_decodes:
  "decodePostNotificationEndpointRequest ex_unmarshal ex_post_request =
     Inr \<lparr>postNotificationEndpointRequest.NotificationEndpoint = OfSlack ex_decoded_slack,
          postNotificationEndpointRequest.Labels =
            [''zz'', ''0000000000000001'', ''0000000000000002'', ''0000000000000003'']\<rparr>"
  by (simp add: decodePostNotificationEndpointRequest_def ex_post_request_def ex_unmarshal_def
      UnmarshalJSON_def decode_slack_def decode_base_def bindE_def get_string_def get_id_def
      get_time_def get_secret_def SlackType_def decodeLabels_Labels_def ex_decoded_slack_def
      EndpointBase.extend_def Slack.fields_def Time_zero_def)

theorem Create_skips_failed_labels_witness:
  "\<exists>resp. handlePostNotificationEndpoint hexID ex_unmarshal ex_IDFromString ex_label_services
             ex_post_request [] =
           (Encoded 201 resp,
            [\<lparr>LabelID = 1, ResourceID = 0, ResourceType = ''notificationEndpoints''\<rparr>])
         \<and> notificationEndpointResponse.NotificationEndpoint resp = OfSlack ex_decoded_slack
         \<and> notificationEndpointResponse.Labels resp = [ex_label 1]"
proof -
  have auth: "authorizer ex_post_request = Inr 5"
    by (simp add: ex_post_request_def)
  have created: "Create ex_label_services 5
      (postNotificationEndpointRequest.NotificationEndpoint
        \<lparr>postNotificationEndpointRequest.NotificationEndpoint = OfSlack ex_decoded_slack,
          postNotificationEndpointRequest.Labels =
            [''zz'', ''0000000000000001'', ''0000000000000002'', ''0000000000000003'']\<rparr>) [] =
      ((None, OfSlack ex_decoded_slack), [])"
    by (simp add: ex_label_services_def Slack_BackfillSecretKeys_def ex_decoded_slack_def)
  have outcomes: "attach_outcomes ex_IDFromString ex_label_services (OfSlack ex_decoded_slack)
      [''zz'', ''0000000000000001'', ''0000000000000002'', ''0000000000000003''] [] =
      [Undecoded (Error EInvalid ''id must have a length of 16 bytes'' None),
       Attached (ex_label 1),
       Unmapped (Error EInternal ''mapping failed'' None),
       Unresolved (Error ENotFound ''label not found'' None)]"
    by (simp add: ex_IDFromString_def ex_label_services_def ex_label_def)
  from Create_skips_failed_labels [OF ex_post_decodes auth created, of hexID ex_IDFromString]
  show ?thesis
    apply (simp add: outcomes)
    apply (simp add: handlePostNotificationEndpoint_def ex_post_decodes auth created
      mapNewNotificationEndpointLabels_def ex_IDFromString_def ex_label_services_def ex_label_def
      StatusCreated_def NotificationEndpointResourceType_def ex_decoded_slack_def
      EndpointBase.truncate_def Slack_BackfillSecretKeys_def)
    done
qed

section \<open>Change-set update of the name\<close>

lemma set_frame:
  "Type (set_UpdatedAt t (set_Name n e)) = Type e"
  "secret_slots (set_UpdatedAt t (set_Name n e)) = secret_slots e"
  "endpoint_URL (set_UpdatedAt t (set_Name n e)) = endpoint_URL e"
  "EndpointBase.ID (Base (set_UpdatedAt t (set_Name n e))) = EndpointBase.ID (Base e)"
  "EndpointBase.OrgID (Base (set_UpdatedAt t (set_Name n e))) = EndpointBase.OrgID (Base e)"
  "EndpointBase.Description (Base (set_UpdatedAt t (set_Name n e))) = EndpointBase.Description (Base e)"
  "EndpointBase.Status (Base (set_UpdatedAt t (set_Name n e))) = EndpointBase.Status (Base e)"
  "CreatedAt (Base (set_UpdatedAt t (set_Name n e))) = CreatedAt (Base e)"
  by (cases e; simp add: Slack_Type_def HTTP_Type_def EndpointBase.truncate_def)+

lemma Service_Update_name_only:
  assumes "st i = Some cur"
  shows "snd (Service_Update now
            (UpdateChangeSet url_Parse i
               \<lparr>NotificationEndpointUpdate.Name = Some n,
                NotificationEndpointUpdate.Description = None,
                NotificationEndpointUpdate.Status = None\<rparr>) st) =
         (if Valid url_Parse (set_UpdatedAt now (set_Name n cur)) = None
          then st(i \<mapsto> set_UpdatedAt now (set_Name n cur)) else st)"
  using assms
  by (simp add: Service_Update_def UpdateChangeSet_def apply_field_def Let_def split: option.splits)

lemma handlePatch_state:
  assumes "decodePatchNotificationEndpointRequest IDFromString update_Valid r = Inr req"
  shows "snd (handlePatchNotificationEndpoint idString IDFromString update_Valid url_Parse h r st) =
         snd (Services.Update h
                (UpdateChangeSet url_Parse (patchNotificationEndpointRequest.ID req)
                   (patchNotificationEndpointRequest.Update req)) st)"
  using assms
  by (simp add: handlePatchNotificationEndpoint_def split: prod.splits sum.splits)

text \<open>
  C5. A PATCH whose change-set holds the name only, served by the update protocol over
  the store: the endpoint stored under the identifier afterwards is the current one with
  the new name and the update timestamp when it validates, and the current one as it was
  when it does not; in both cases its type, its secret fields (keys and values), its URL
  and its other base fields are those of the current endpoint, and no other entry of the
  store changes.
\<close>

theorem patch_name_only_frame:
  assumes "decodePatchNotificationEndpointRequest IDFromString update_Valid r =
             Inr \<lparr>patchNotificationEndpointRequest.ID = i,
                  patchNotificationEndpointRequest.Update =
                    \<lparr>NotificationEndpointUpdate.Name = Some n,
                     NotificationEndpointUpdate.Description = None,
                     NotificationEndpointUpdate.Status = None\<rparr>\<rparr>"
    and "Services.Update h = Service_Update now"
    and "st i = Some cur"
    and "handlePatchNotificationEndpoint idString IDFromString update_Valid url_Parse h r st =
           (resp, st')"
  shows "\<exists>new. st' i = Some new
           \<and> (Valid url_Parse (set_UpdatedAt now (set_Name n cur)) = None \<longrightarrow>
                new = set_UpdatedAt now (set_Name n cur))
           \<and> (Valid url_Parse (set_UpdatedAt now (set_Name n cur)) \<noteq> None \<longrightarrow> new = cur)
           \<and> Type new = Type cur
           \<and> secret_slots new = secret_slots cur
           \<and> endpoint_URL new = endpoint_URL cur
           \<and> EndpointBase.ID (Base new) = EndpointBase.ID (Base cur)
           \<and> EndpointBase.OrgID (Base new) = EndpointBase.OrgID (Base cur)
           \<and> EndpointBase.Description (Base new) = EndpointBase.Description (Base cur)
           \<and> EndpointBase.Status (Base new) = EndpointBase.Status (Base cur)
           \<and> CreatedAt (Base new) = CreatedAt (Base cur)
           \<and> (\<forall>j. j \<noteq> i \<longrightarrow> st' j = st j)"
proof -
  have "st' = snd (handlePatchNotificationEndpoint idString IDFromString update_Valid url_Parse h r st)"
    using assms(4) by simp
  also have "\<dots> = (if Valid url_Parse (set_UpdatedAt now (set_Name n cur)) = None
          then st(i \<mapsto> set_UpdatedAt now (set_Name n cur)) else st)"
    using handlePatch_state [OF assms(1), of idString url_Parse h st] assms(2) assms(3)
      Service_Update_name_only [of st i cur now url_Parse n]
    by simp
  finally show ?thesis
    using assms(3) by (auto simp add: set_frame)
qed

lemma ex_patch_decodes:
  "decodePatchNotificationEndpointRequest ex_IDFromString (\<lambda>u. None) ex_patch_request =
     Inr \<lparr>patchNotificationEndpointRequest.ID = 0x020f755c3c082000,
          patchNotificationEndpointRequest.Update =
            \<lparr>NotificationEndpointUpdate.Name = Some ''example'',
             NotificationEndpointUpdate.Description = None,
             NotificationEndpointUpdate.Status = None\<rparr>\<rparr>"
  by (simp add: decodePatchNotificationEndpointRequest_def ex_patch_request_def ByName_def
      ex_IDFromString_def decode_update_def get_opt_string_def bindE_def)

theorem patch_name_only_frame_witness:
  "(snd (handlePatchNotificationEndpoint hexID ex_IDFromString (\<lambda>u. None) (\<lambda>u. None)
          (ex_store_services 42) ex_patch_request ex_store)) 0x020f755c3c082000 =
     Some (OfSlack (ex_slack\<lparr>EndpointBase.Name := ''example'', UpdatedAt := 42,
        Slack.Token := \<lparr>Key = ''020f755c3c082000-token'', Value = Some ''tok''\<rparr>\<rparr>))
   \<and> (snd (handlePatchNotificationEndpoint hexID ex_IDFromString (\<lambda>u. None) (\<lambda>u. None)
          (ex_store_services 42) ex_patch_request ex_store)) 1 = None"
proof -
  have upd: "Services.Update (ex_store_services 42) = Service_Update 42"
    by (simp add: ex_store_services_def)
  have cur: "ex_store 0x020f755c3c082000 = Some (BackfillSecretKeys hexID (OfSlack ex_slack))"
    by (simp add: ex_store_def)
  have valid: "Valid (\<lambda>u. None) (set_UpdatedAt 42 (set_Name ''example''
      (BackfillSecretKeys hexID (OfSlack ex_slack)))) = None"
    by (simp add: ex_slack_def Slack_BackfillSecretKeys_def Slack_Valid_def EndpointBase_Valid_def
        Status_Valid_def Active_def)
  from patch_name_only_frame [where st = ex_store and i = "0x020f755c3c082000"
      and idString = hexID and url_Parse = "\<lambda>u. None", OF ex_patch_decodes upd cur surjective_pairing]
    valid
  show ?thesis
    by (auto simp add: ex_slack_def Slack_BackfillSecretKeys_def hexID_ex slackTokenSuffix_def
        ex_store_def)
qed

end
